theory Spec2Isabelle
  imports Complex_Main "HOL-Library.Sublist"
begin

section \<open>Python strings\<close>

text \<open>
  A Python \<open>str\<close> is a \<open>string\<close> here, one \<open>char\<close> per code point, for the code
  points below 256 (Latin-1): \<open>length\<close> counts characters as Python's \<open>len\<close> does, and
  \<open>take n\<close> is the slice \<open>s[:n]\<close>. The accented letters of the source are written
  with their code point (\<open>CHR 0xE9\<close> is e-acute).
\<close>

text \<open>The characters \<open>\s\<close>, \<open>str.strip()\<close> and \<open>str.split()\<close> treat as whitespace
  (below 256: TAB, LF, VT, FF, CR, FS, GS, RS, US, space, NEL, NBSP).\<close>

definition is_space :: "char \<Rightarrow> bool" where
  "is_space c = (c \<in> set [CHR 0x09, CHR 0x0A, CHR 0x0B, CHR 0x0C, CHR 0x0D,
                           CHR 0x1C, CHR 0x1D, CHR 0x1E, CHR 0x1F, CHR 0x20,
                           CHR 0x85, CHR 0xA0])"

text \<open>\<open>re.sub(r'\s+', ' ', text)\<close>: every maximal run of whitespace becomes one space.\<close>

function collapse_ws :: "string \<Rightarrow> string" where
  "collapse_ws [] = []"
| "collapse_ws (c # cs) =
     (if is_space c then CHR '' '' # collapse_ws (dropWhile is_space cs)
      else c # collapse_ws cs)"
  by pat_completeness auto
termination
  by (relation "measure length") (auto simp: length_dropWhile_le less_Suc_eq_le)

text \<open>\<open>str.strip()\<close> with no argument.\<close>

definition strip :: "string \<Rightarrow> string" where
  "strip s = rev (dropWhile is_space (rev (dropWhile is_space s)))"

text \<open>\<open>clean\<close> of inject-content.py (and of inject-v2.py, and \<open>clean_text\<close> of
  scrape-gisti.py, which have the same body): the empty text stays empty, any other
  text has its whitespace collapsed and is stripped.\<close>

definition clean :: "string \<Rightarrow> string" where
  "clean text = (if text = [] then [] else strip (collapse_ws text))"

definition clean_text :: "string \<Rightarrow> string" where
  "clean_text text = (if text = [] then [] else strip (collapse_ws text))"

text \<open>\<open>str.replace(old, new)\<close> for a one-character \<open>old\<close>, and \<open>html.escape\<close> with
  its default \<open>quote=True\<close>, as the standard library writes it: five replacements in
  sequence, the ampersand first.\<close>

definition replace_char :: "char \<Rightarrow> string \<Rightarrow> string \<Rightarrow> string" where
  "replace_char old new s = concat (map (\<lambda>c. if c = old then new else [c]) s)"

definition escape :: "string \<Rightarrow> string" where
  \<open>escape s =
     replace_char (CHR 0x27) ''&#x27;''
       (replace_char (CHR 0x22) ''&quot;''
         (replace_char CHR ''>'' ''&gt;''
           (replace_char CHR ''<'' ''&lt;''
             (replace_char CHR ''&'' ''&amp;'' s))))\<close>

text \<open>\<open>str.lower()\<close> on Latin-1: the letters A to Z and the accented capitals
  (0xC0 to 0xDE, the multiplication sign 0xD7 apart) move up by 32.\<close>

definition lower_char :: "char \<Rightarrow> char" where
  "lower_char c =
     (let n = (of_char c :: nat)
      in if (65 \<le> n \<and> n \<le> 90) \<or> (192 \<le> n \<and> n \<le> 222 \<and> n \<noteq> 215)
         then char_of (n + 32) else c)"

definition lower :: "string \<Rightarrow> string" where
  "lower s = map lower_char s"

text \<open>\<open>str.split()\<close> with no argument: the maximal runs of non-whitespace.\<close>

function split_ws :: "string \<Rightarrow> string list" where
  "split_ws s =
     (let s' = dropWhile is_space s
      in if s' = [] then []
         else takeWhile (\<lambda>c. \<not> is_space c) s' # split_ws (dropWhile (\<lambda>c. \<not> is_space c) s'))"
  by pat_completeness auto
termination
proof (relation "measure length")
  fix s s' :: string
  assume s': "s' = dropWhile is_space s" and ne: "s' \<noteq> []"
  then obtain c cs where c: "s' = c # cs" "\<not> is_space c"
    by (metis dropWhile_eq_Nil_conv hd_dropWhile list.exhaust list.sel(1))
  have "length (dropWhile (\<lambda>c. \<not> is_space c) s') \<le> length cs"
    using c by (simp add: length_dropWhile_le)
  also have "length cs < length s'" using c by simp
  also have "length s' \<le> length s" using s' by (simp add: length_dropWhile_le)
  finally show "(dropWhile (\<lambda>c. \<not> is_space c) s', s) \<in> measure length" by simp
qed simp

text \<open>\<open>sep.join(parts)\<close>, \<open>s.startswith(p)\<close>, and \<open>str(n)\<close> for a length.\<close>

fun join :: "string \<Rightarrow> string list \<Rightarrow> string" where
  "join sep [] = []"
| "join sep [x] = x"
| "join sep (x # y # ys) = x @ sep @ join sep (y # ys)"

definition startswith :: "string \<Rightarrow> string \<Rightarrow> bool" where
  "startswith s p = (take (length p) s = p)"

definition digit_char :: "nat \<Rightarrow> char" where
  "digit_char d = char_of (48 + d)"

fun str_nat :: "nat \<Rightarrow> string" where
  "str_nat n = (if n < 10 then [digit_char n] else str_nat (n div 10) @ [digit_char (n mod 10)])"

section \<open>Text files\<close>

text \<open>
  \<open>Path.write_text\<close> and \<open>Path.read_text\<close> open the file in text mode.
  \<open>write_text\<close> writes every line feed of the text as the line separator of the
  platform, \<open>os.linesep\<close>, and \<open>read_text\<close> returns every carriage return followed
  by a line feed, and every other carriage return, as one line feed (universal
  newlines).
\<close>

definition write_newlines :: "string \<Rightarrow> string \<Rightarrow> string" where
  "write_newlines sep text = concat (map (\<lambda>c. if c = CHR 0x0A then sep else [c]) text)"

fun universal_newlines :: "string \<Rightarrow> string" where
  "universal_newlines [] = []"
| "universal_newlines [c] = (if c = CHR 0x0D then [CHR 0x0A] else [c])"
| "universal_newlines (c # d # cs) =
     (if c = CHR 0x0D \<and> d = CHR 0x0A then CHR 0x0A # universal_newlines cs
      else if c = CHR 0x0D then CHR 0x0A # universal_newlines (d # cs)
      else c # universal_newlines (d # cs))"

section \<open>The regular expressions of the injector\<close>

text \<open>
  The patterns of the source use literals, the classes \<open>\s\<close>, \<open>\d\<close>, \<open>.\<close> (with and
  without \<open>re.DOTALL\<close>) and \<open>[^c]\<close>, the repetitions \<open>*\<close>, \<open>+\<close> and \<open>*?\<close> of one
  class, concatenation, alternation and numbered groups.
\<close>

definition is_digit :: "char \<Rightarrow> bool" where
  "is_digit c = (c \<in> set ''0123456789'')"

datatype cset = Lit char | Space | Digit | Dot | DotAll | Not char

fun cmatch :: "cset \<Rightarrow> char \<Rightarrow> bool" where
  "cmatch (Lit c) x = (x = c)"
| "cmatch Space x = is_space x"
| "cmatch Digit x = is_digit x"
| "cmatch Dot x = (x \<noteq> CHR 0x0A)"
| "cmatch DotAll x = True"
| "cmatch (Not c) x = (x \<noteq> c)"

datatype regex =
  Eps | Ch cset | Star cset | Plus cset | Lazy cset
  | Seq regex regex | Alt regex regex | Grp nat regex

text \<open>A literal text, and a concatenation of several patterns.\<close>

fun lit :: "string \<Rightarrow> regex" where
  "lit [] = Eps"
| "lit [c] = Ch (Lit c)"
| "lit (c # cs) = Seq (Ch (Lit c)) (lit cs)"

fun seqs :: "regex list \<Rightarrow> regex" where
  "seqs [] = Eps"
| "seqs [r] = r"
| "seqs (r # rs) = Seq r (seqs rs)"

text \<open>The number of groups of a pattern (\<open>Pattern.groups\<close>).\<close>

fun ngroups :: "regex \<Rightarrow> nat" where
  "ngroups (Seq a b) = ngroups a + ngroups b"
| "ngroups (Alt a b) = ngroups a + ngroups b"
| "ngroups (Grp n r) = Suc (ngroups r)"
| "ngroups r = 0"

text \<open>
  \<open>run\<close> is the backtracking matcher of \<open>re\<close> for these patterns. It works on the list
  of what is still to be matched: \<open>run k s g\<close> tries the ways the items of \<open>k\<close> can
  match a prefix of \<open>s\<close>, one after the other, in the engine's order of preference (a
  greedy repetition the longest first, a lazy one the shortest first, an alternation
  from the left), and returns the first that succeeds, with the rest of the text and
  the groups. A group is recorded when it closes, as the text from its start and the
  text from its end; the latest record of a group stands first. The item \<open>Advance s\<close>
  refuses a match that has consumed nothing of \<open>s\<close>: the engine sets it at the position
  where the previous match was empty.
\<close>

type_synonym marks = "(nat \<times> string \<times> string) list"

type_synonym found = "(string \<times> marks) option"

datatype instr = Re regex | Close nat string | Advance string

fun isize :: "instr \<Rightarrow> nat" where
  "isize (Re r) = size r"
| "isize (Close n s) = 0"
| "isize (Advance s) = 0"

function run :: "instr list \<Rightarrow> string \<Rightarrow> marks \<Rightarrow> found" where
  "run [] s g = Some (s, g)"
| "run (Close n s0 # k) s g = run k s ((n, s0, s) # g)"
| "run (Advance s0 # k) s g = (if length s < length s0 then run k s g else None)"
| "run (Re Eps # k) s g = run k s g"
| "run (Re (Ch c) # k) [] g = None"
| "run (Re (Ch c) # k) (x # xs) g = (if cmatch c x then run k xs g else None)"
| "run (Re (Plus c) # k) [] g = None"
| "run (Re (Plus c) # k) (x # xs) g =
     (if cmatch c x then run (Re (Star c) # k) xs g else None)"
| "run (Re (Star c) # k) [] g = run k [] g"
| "run (Re (Star c) # k) (x # xs) g =
     (if cmatch c x
      then (case run (Re (Star c) # k) xs g of
              Some r \<Rightarrow> Some r
            | None \<Rightarrow> run k (x # xs) g)
      else run k (x # xs) g)"
| "run (Re (Lazy c) # k) [] g = run k [] g"
| "run (Re (Lazy c) # k) (x # xs) g =
     (case run k (x # xs) g of
        Some r \<Rightarrow> Some r
      | None \<Rightarrow> if cmatch c x then run (Re (Lazy c) # k) xs g else None)"
| "run (Re (Seq a b) # k) s g = run (Re a # Re b # k) s g"
| "run (Re (Alt a b) # k) s g =
     (case run (Re a # k) s g of Some r \<Rightarrow> Some r | None \<Rightarrow> run (Re b # k) s g)"
| "run (Re (Grp n r) # k) s g = run (Re r # Close n s # k) s g"
  by pat_completeness auto
termination
  by (relation "(\<lambda>(k, s, g). length s) <*mlex*> (\<lambda>(k, s, g). sum_list (map isize k))
        <*mlex*> measure (\<lambda>(k, s, g). length k)")
     (auto simp: wf_mlex mlex_less mlex_leq)

text \<open>
  The search for the leftmost match (\<open>Pattern.search\<close> from a position): the text
  skipped before the match (accumulated in reverse), the text from the start of the
  match, the text from its end, the groups. With \<open>must_advance\<close> a match at the first
  position has to consume something.
\<close>

type_synonym hit = "string \<times> string \<times> string \<times> marks"

fun search_from :: "regex \<Rightarrow> string \<Rightarrow> string \<Rightarrow> hit option" where
  "search_from r skipped [] =
     (case run [Re r] [] [] of
        Some (s', g) \<Rightarrow> Some (rev skipped, [], s', g)
      | None \<Rightarrow> None)"
| "search_from r skipped (c # cs) =
     (case run [Re r] (c # cs) [] of
        Some (s', g) \<Rightarrow> Some (rev skipped, c # cs, s', g)
      | None \<Rightarrow> search_from r (c # skipped) cs)"

fun re_search :: "regex \<Rightarrow> bool \<Rightarrow> string \<Rightarrow> hit option" where
  "re_search r False s = search_from r [] s"
| "re_search r True [] = None"
| "re_search r True (c # cs) =
     (case run [Re r, Advance (c # cs)] (c # cs) [] of
        Some (s', g) \<Rightarrow> Some ([], c # cs, s', g)
      | None \<Rightarrow> search_from r [c] cs)"

section \<open>Replacement templates\<close>

text \<open>
  The exceptions the injector can raise. \<open>BadTemplate\<close> stands for the \<open>re.error\<close> (or
  \<open>IndexError\<close>) that \<open>re.sub\<close> raises when it parses a replacement template.
\<close>

datatype py_error = FileNotFoundError string | KeyError string | BadTemplate

text \<open>
  \<open>parse_template\<close> of the standard library: a replacement string is cut into literal
  characters and group references. \<open>template_token\<close> reads one token from the front
  of the string, for a pattern with \<open>n\<close> groups, and returns its parts with the rest of
  the string. A backslash starts a group reference (\<open>\g<12>\<close>, \<open>\1\<close>, \<open>\12\<close>), an octal
  escape (\<open>\0\<close>, \<open>\012\<close>, \<open>\101\<close>), one of the escapes \<open>\a \b \f \n \r \t \v \\\<close>, an
  error (before an ASCII letter, at the end of the string, for a group the pattern
  does not have) or, before any other character, itself. No pattern of the source
  names a group, and a group name that is not written in ASCII digits is refused.
\<close>

datatype part = TLit char | TGrp nat

definition is_octal :: "char \<Rightarrow> bool" where
  "is_octal c = (c \<in> set ''01234567'')"

definition is_ascii_letter :: "char \<Rightarrow> bool" where
  "is_ascii_letter c =
     (c \<in> set ''abcdefghijklmnopqrstuvwxyzABCDEFGHIJKLMNOPQRSTUVWXYZ'')"

definition digit_val :: "char \<Rightarrow> nat" where
  "digit_val c = of_char c - 48"

definition nat_of_digits :: "nat \<Rightarrow> string \<Rightarrow> nat" where
  "nat_of_digits base ds = foldl (\<lambda>n c. base * n + digit_val c) 0 ds"

definition template_escape :: "char \<Rightarrow> char option" where
  "template_escape e =
     (if e = CHR ''a'' then Some (CHR 0x07)
      else if e = CHR ''b'' then Some (CHR 0x08)
      else if e = CHR ''f'' then Some (CHR 0x0C)
      else if e = CHR ''n'' then Some (CHR 0x0A)
      else if e = CHR ''r'' then Some (CHR 0x0D)
      else if e = CHR ''t'' then Some (CHR 0x09)
      else if e = CHR ''v'' then Some (CHR 0x0B)
      else if e = CHR 0x5C then Some (CHR 0x5C)
      else None)"

definition group_ref :: "nat \<Rightarrow> nat \<Rightarrow> string \<Rightarrow> py_error + part list \<times> string" where
  "group_ref n index rest = (if index > n then Inl BadTemplate else Inr ([TGrp index], rest))"

fun template_token :: "nat \<Rightarrow> string \<Rightarrow> py_error + part list \<times> string" where
  "template_token n [] = Inr ([], [])"
| "template_token n [c] = (if c = CHR 0x5C then Inl BadTemplate else Inr ([TLit c], []))"
| "template_token n (c # e # rest) =
     (if c \<noteq> CHR 0x5C then Inr ([TLit c], e # rest)
      else if e = CHR ''g'' then
        (case rest of
           [] \<Rightarrow> Inl BadTemplate
         | b # rest' \<Rightarrow>
             if b \<noteq> CHR ''<'' then Inl BadTemplate
             else
               (let name = takeWhile (\<lambda>x. x \<noteq> CHR ''>'') rest';
                    after = dropWhile (\<lambda>x. x \<noteq> CHR ''>'') rest'
                in if after = [] \<or> name = [] \<or> \<not> list_all is_digit name then Inl BadTemplate
                   else group_ref n (nat_of_digits 10 name) (tl after)))
      else if e = CHR ''0'' then
        (let ds = takeWhile is_octal (take 2 rest)
         in Inr ([TLit (char_of (nat_of_digits 8 ds mod 256))], drop (length ds) rest))
      else if is_digit e then
        (case rest of
           [] \<Rightarrow> group_ref n (digit_val e) []
         | d # rest' \<Rightarrow>
             if \<not> is_digit d then group_ref n (digit_val e) (d # rest')
             else
               (case rest' of
                  [] \<Rightarrow> group_ref n (nat_of_digits 10 [e, d]) []
                | t # rest'' \<Rightarrow>
                    if is_octal e \<and> is_octal d \<and> is_octal t
                    then (if nat_of_digits 8 [e, d, t] > 255 then Inl BadTemplate
                          else Inr ([TLit (char_of (nat_of_digits 8 [e, d, t]))], rest''))
                    else group_ref n (nat_of_digits 10 [e, d]) (t # rest'')))
      else
        (case template_escape e of
           Some ch \<Rightarrow> Inr ([TLit ch], rest)
         | None \<Rightarrow>
             if is_ascii_letter e then Inl BadTemplate
             else Inr ([TLit (CHR 0x5C), TLit e], rest)))"

lemma group_ref_rest:
  "group_ref n i rest = Inr (ps, rest') \<Longrightarrow> rest' = rest"
  by (auto simp: group_ref_def split: if_splits)

lemma template_token_shorter:
  assumes "template_token n s = Inr (ps, rest)" "s \<noteq> []"
  shows "length rest < length s"
proof (cases s)
  case Nil
  with assms show ?thesis by simp
next
  case (Cons c s')
  show ?thesis
  proof (cases s')
    case Nil
    with Cons assms show ?thesis by (auto split: if_splits)
  next
    case (Cons e rest0)
    have dw: "length (dropWhile P xs) - Suc 0 \<le> Suc (Suc (length xs))" for P and xs :: string
      using length_dropWhile_le [of P xs] by simp
    from assms(1) show ?thesis
      unfolding \<open>s = c # s'\<close> Cons
      by (auto simp: Let_def less_Suc_eq_le le_SucI dw
          split: if_splits list.splits option.splits dest!: group_ref_rest)
  qed
qed

function parse_template :: "nat \<Rightarrow> string \<Rightarrow> py_error + part list" where
  "parse_template n s =
     (if s = [] then Inr []
      else case template_token n s of
             Inl e \<Rightarrow> Inl e
           | Inr (ps, rest) \<Rightarrow>
               (case parse_template n rest of
                  Inl e \<Rightarrow> Inl e
                | Inr qs \<Rightarrow> Inr (ps @ qs)))"
  by pat_completeness auto
termination
  by (relation "measure (\<lambda>(n, s). length s)") (auto dest: template_token_shorter)

text \<open>
  \<open>expand_template\<close>: group 0 is the whole match, a group that took no part in the
  match gives the empty string.
\<close>

definition span_text :: "string \<times> string \<Rightarrow> string" where
  "span_text sp = take (length (fst sp) - length (snd sp)) (fst sp)"

fun expand_part :: "marks \<Rightarrow> string \<Rightarrow> string \<Rightarrow> part \<Rightarrow> string" where
  "expand_part g s0 s1 (TLit c) = [c]"
| "expand_part g s0 s1 (TGrp i) =
     (if i = 0 then span_text (s0, s1)
      else case map_of g i of Some sp \<Rightarrow> span_text sp | None \<Rightarrow> [])"

definition expand_template :: "part list \<Rightarrow> marks \<Rightarrow> string \<Rightarrow> string \<Rightarrow> string" where
  "expand_template t g s0 s1 = concat (map (expand_part g s0 s1) t)"

section \<open>Substitution\<close>

text \<open>
  \<open>re.sub(pattern, repl, string)\<close> with a string \<open>repl\<close> and no count. The template is
  parsed first, so a bad template raises whether or not the pattern matches. Then the
  loop of the engine: search from the end of the previous match; when nothing is
  found, copy the rest of the text; otherwise copy the text skipped, expand the
  template for the match, and go on from its end, where an empty match must advance.
  The state of the loop is the result of the last search.
\<close>

lemma run_suffix:
  "run k s g = Some (s', g') \<Longrightarrow>
     length s' \<le> length s \<and> (\<forall>s0. Advance s0 \<in> set k \<longrightarrow> length s' < length s0)"
proof (induction k s g arbitrary: s' g' rule: run.induct)
  case (10 c k x xs g)
  then show ?case
    by (fastforce split: if_splits option.splits)
next
  case (12 c k x xs g)
  then show ?case
    by (fastforce split: if_splits option.splits)
next
  case (14 a b k s g)
  then show ?case
    by (fastforce split: if_splits option.splits)
qed (fastforce split: if_splits)+

lemma search_from_suffix:
  "search_from r skipped s = Some (before, s0, s1, g) \<Longrightarrow>
     length s1 \<le> length s0 \<and> length s0 \<le> length s"
proof (induction s arbitrary: skipped)
  case Nil
  then show ?case
    by (auto split: option.splits dest: run_suffix)
next
  case (Cons c cs)
  show ?case
  proof (cases "run [Re r] (c # cs) []")
    case None
    with Cons.prems have "search_from r (c # skipped) cs = Some (before, s0, s1, g)"
      by simp
    from Cons.IH [OF this] show ?thesis by simp
  next
    case (Some a)
    with Cons.prems show ?thesis
      by (cases a) (auto dest: run_suffix)
  qed
qed

lemma re_search_suffix:
  assumes "re_search r must s = Some (before, s0, s1, g)"
  shows "length s1 \<le> length s0 \<and> length s0 \<le> length s \<and> (must \<longrightarrow> length s1 < length s)"
proof (cases must)
  case False
  with assms show ?thesis by (auto dest: search_from_suffix)
next
  case True
  show ?thesis
  proof (cases s)
    case Nil
    with True assms show ?thesis by simp
  next
    case (Cons c cs)
    show ?thesis
    proof (cases "run [Re r, Advance (c # cs)] (c # cs) []")
      case None
      with True Cons assms have "search_from r [c] cs = Some (before, s0, s1, g)"
        by simp
      from search_from_suffix [OF this] Cons True show ?thesis by auto
    next
      case (Some a)
      with True Cons assms show ?thesis
        by (cases a) (auto dest: run_suffix)
    qed
  qed
qed

function sub_from :: "regex \<Rightarrow> part list \<Rightarrow> hit option \<Rightarrow> string \<Rightarrow> string" where
  "sub_from r t None s = s"
| "sub_from r t (Some (before, s0, s1, g)) s =
     before @ expand_template t g s0 s1
       @ sub_from r t (re_search r (length s1 = length s0) s1) s1"
  by pat_completeness auto
termination
proof (relation "measure (\<lambda>(r, t, h, s). case h of None \<Rightarrow> 0
        | Some (before, s0, s1, g) \<Rightarrow>
            2 + 2 * length s1 + (if length s1 = length s0 then 0 else 1))", goal_cases)
  case 1
  then show ?case by simp
next
  case (2 r t before s0 s1 g s)
  show ?case
  proof (cases "re_search r (length s1 = length s0) s1")
    case None
    then show ?thesis by simp
  next
    case (Some h)
    obtain b' t0 t1 g' where h: "h = (b', t0, t1, g')"
      by (cases h) auto
    from re_search_suffix [OF Some [unfolded h]]
    have "length t1 \<le> length t0" "length t0 \<le> length s1"
      "length s1 = length s0 \<longrightarrow> length t1 < length s1"
      by auto
    then show ?thesis
      unfolding Some h by (auto split: if_splits)
  qed
qed

definition re_sub :: "regex \<Rightarrow> string \<Rightarrow> string \<Rightarrow> py_error + string" where
  "re_sub pattern repl string =
     (case parse_template (ngroups pattern) repl of
        Inl e \<Rightarrow> Inl e
      | Inr t \<Rightarrow> Inr (sub_from pattern t (re_search pattern False string) string))"

section \<open>Records read from the JSON collections\<close>

text \<open>
  An item of a collection is a JSON object. Its string-valued keys are the map \<open>strs\<close>
  (\<open>d.get(k, default)\<close> is \<open>dget\<close>); the one list-valued key the injector reads,
  \<open>keywords\<close>, is the field \<open>kwds\<close> (the word itself is reserved).
\<close>

record item =
  strs :: "string \<rightharpoonup> string"
  kwds :: "string list"

definition dget :: "item \<Rightarrow> string \<Rightarrow> string \<Rightarrow> string" where
  "dget d k dflt = (case strs d k of None \<Rightarrow> dflt | Some v \<Rightarrow> v)"

section \<open>inject-content.py: the fragment generators\<close>

definition make_card_html :: "item \<Rightarrow> nat \<Rightarrow> string" where
  \<open>make_card_html article index =
     (let title = escape (clean (dget article ''title'' ''Sans titre''));
          date = escape (clean (dget article ''date'' ''''));
          body = escape (take 180 (clean (dget article ''body_text'' '''')));
          rubrique = escape (clean (dget article ''rubrique'' ''''));
          url = escape (dget article ''url'' ''article.html'');
          date_html = (if date \<noteq> [] then ''<time>'' @ date @ ''</time>'' else '''');
          rubrique_html =
            (if rubrique \<noteq> [] then ''<span>&middot;</span><span>'' @ rubrique @ ''</span>''
             else '''')
      in ''          <article class="card">\<newline>'' @
         ''            <div class="card__body">\<newline>'' @
         ''              <span class="card__overline">Article</span>\<newline>'' @
         ''              <h3 class="card__title">\<newline>'' @
         ''                <a href="article.html">'' @ title @ ''</a>\<newline>'' @
         ''              </h3>\<newline>'' @
         ''              <p class="card__text">'' @ body @ ''</p>\<newline>'' @
         ''              <div class="card__meta">\<newline>'' @
         ''                '' @ date_html @ ''\<newline>'' @
         ''                '' @ rubrique_html @ ''\<newline>'' @
         ''              </div>\<newline>'' @
         ''            </div>\<newline>'' @
         ''          </article>'')\<close>

definition make_formation_mini_html :: "item \<Rightarrow> string" where
  \<open>make_formation_mini_html formation =
     (let title = escape (clean (dget formation ''title'' ''''));
          date = clean (dget formation ''date'' '''');
          price = escape (clean (dget formation ''price'' ''''));
          duration = escape (clean (dget formation ''duration'' ''''));
          parts = split_ws date;
          (day, month) =
            (if date \<noteq> [] \<and> length parts \<ge> 2
             then (parts ! 0, take 4 (parts ! 1) @ ''.'') else ('''', ''''));
          meta_parts =
            (if duration \<noteq> [] then [duration] else []) @ [''Paris'']
            @ (if price \<noteq> [] then [price] else []);
          meta_str = join '' &middot; '' meta_parts
      in ''              <div class="formation-mini">\<newline>'' @
         ''                <div class="formation-mini__date">\<newline>'' @
         ''                  <span class="formation-mini__date-day">'' @
              (if day \<noteq> [] then escape day else ''?'') @ ''</span>\<newline>'' @
         ''                  <span class="formation-mini__date-month">'' @
              (if month \<noteq> [] then escape month else '''') @ ''</span>\<newline>'' @
         ''                </div>\<newline>'' @
         ''                <div>\<newline>'' @
         ''                  <p class="formation-mini__title">'' @ title @ ''</p>\<newline>'' @
         ''                  <p class="formation-mini__meta">'' @ meta_str @ ''</p>\<newline>'' @
         ''                </div>\<newline>'' @
         ''              </div>'')\<close>

definition make_pub_card_html :: "item \<Rightarrow> string" where
  \<open>make_pub_card_html pub =
     (let title = escape (clean (dget pub ''title'' ''''));
          pub_type = escape (clean (dget pub ''type'' ''Publication''))
      in ''          <a href="publication-detail.html" class="pub-card" data-filter-item data-type="'' @
              replace_char CHR '' '' ''-'' (lower pub_type) @ ''">\<newline>'' @
         ''            <div class="pub-card__cover-placeholder">'' @ take 30 title @ ''</div>\<newline>'' @
         ''            <div class="pub-card__body">\<newline>'' @
         ''              <span class="pub-card__type">'' @ pub_type @ ''</span>\<newline>'' @
         ''              <h3 class="pub-card__title">'' @ title @ ''</h3>\<newline>'' @
         ''            </div>\<newline>'' @
         ''          </a>'')\<close>

definition fmt_label_of :: "string \<Rightarrow> string" where
  "fmt_label_of fmt =
     (if fmt = ''presentiel'' then ''Pr'' @ [CHR 0xE9] @ ''sentiel''
      else if fmt = ''distanciel'' then ''Distanciel''
      else if fmt = ''webinaire'' then ''Webinaire''
      else ''Pr'' @ [CHR 0xE9] @ ''sentiel'')"

definition make_formation_card_html :: "item \<Rightarrow> string" where
  \<open>make_formation_card_html formation =
     (let title = escape (clean (dget formation ''title'' ''''));
          desc = escape (take 200 (clean (dget formation ''description'' '''')));
          fmt = dget formation ''format'' ''presentiel'';
          price = escape (clean (dget formation ''price'' ''''));
          duration = escape (clean (dget formation ''duration'' ''''));
          date = escape (clean (dget formation ''date'' ''''));
          fmt_label = fmt_label_of fmt;
          fmt_class = ''formation-card__format--'' @ fmt;
          details =
            (if duration \<noteq> []
             then [''<span class="formation-card__detail">'' @ duration @ ''</span>''] else [])
            @ (if date \<noteq> []
               then [''<span class="formation-card__detail">'' @ date @ ''</span>''] else [])
            @ (if price \<noteq> []
               then [''<span class="formation-card__detail formation-card__price">'' @ price
                     @ ''</span>''] else [])
      in ''          <div class="formation-card" data-filter-item>\<newline>'' @
         ''            <div class="formation-card__header">\<newline>'' @
         ''              <h3 class="formation-card__title">'' @ title @ ''</h3>\<newline>'' @
         ''              <span class="formation-card__format '' @ fmt_class @ ''">'' @ fmt_label
              @ ''</span>\<newline>'' @
         ''            </div>\<newline>'' @
         ''            <p class="formation-card__desc">'' @ desc @ ''</p>\<newline>'' @
         ''            <div class="formation-card__details">\<newline>'' @
         ''              '' @ join ''\<newline>'' details @ ''\<newline>'' @
         ''              <span class="formation-card__places">Places disponibles</span>\<newline>'' @
         ''            </div>\<newline>'' @
         ''          </div>'')\<close>

section \<open>inject-content.py: the files and the output\<close>

text \<open>
  The injector reads and rewrites HTML documents, reads JSON collections, and prints.
  \<open>files\<close> holds the characters of each document (decoded as UTF-8) under its path
  below \<open>BASE_DIR\<close>; the documents are read with \<open>read_text\<close> and written with
  \<open>write_text\<close>, in text mode, with the line separator \<open>os_linesep\<close> of the
  platform. A collection is the list of its items as \<open>json.load\<close>
  returns it; \<open>load_json\<close> turns a missing or malformed file into the empty list.
  \<open>homepage.json\<close> is one object: \<open>homepage\<close> holds the list under its key
  \<open>featured_articles\<close> (empty when the key is missing), and nothing when the file is
  missing or malformed. \<open>printed\<close> holds the arguments of the calls of \<open>print\<close>.
\<close>

record world =
  files :: "string \<rightharpoonup> string"
  os_linesep :: string
  collections :: "string \<rightharpoonup> item list"
  homepage :: "item list option"
  printed :: "string list"

definition say :: "string \<Rightarrow> world \<Rightarrow> world" where
  "say line w = w\<lparr>printed := printed w @ [line]\<rparr>"

definition write_text :: "string \<Rightarrow> string \<Rightarrow> world \<Rightarrow> world" where
  "write_text path text w =
     w\<lparr>files := (files w)(path \<mapsto> write_newlines (os_linesep w) text)\<rparr>"

text \<open>
  \<open>read_text\<close> of a path, \<open>None\<close> when the file does not exist: there
  \<open>html_path.exists()\<close> is false and \<open>html_path.read_text\<close> raises
  \<open>FileNotFoundError\<close>.
\<close>

definition read_text :: "world \<Rightarrow> string \<Rightarrow> string option" where
  "read_text w path = map_option universal_newlines (files w path)"

definition load_json :: "world \<Rightarrow> string \<Rightarrow> item list" where
  "load_json w path = (case collections w path of None \<Rightarrow> [] | Some items \<Rightarrow> items)"

text \<open>An exception ends the function that raises it and every caller up to \<open>main\<close>.\<close>

fun bind :: "py_error + 'a \<Rightarrow> ('a \<Rightarrow> py_error + 'b) \<Rightarrow> py_error + 'b" where
  "bind (Inl e) f = Inl e"
| "bind (Inr x) f = f x"

section \<open>inject-content.py: the anchor patterns\<close>

definition ws :: regex where
  "ws = Star Space"

definition nl :: regex where
  "nl = Ch (Lit (CHR 0x0A))"

text \<open>\<open>(class="grid grid-3 reveal">\s*\n)(.*?)(</div>\s*</div>\s*</section>\s*\n\s*<!-- Dossiers actifs)\<close>\<close>

definition pattern_featured :: regex where
  \<open>pattern_featured =
     seqs [Grp 1 (seqs [lit ''class="grid grid-3 reveal">'', ws, nl]),
           Grp 2 (Lazy DotAll),
           Grp 3 (seqs [lit ''</div>'', ws, lit ''</div>'', ws, lit ''</section>'', ws, nl, ws,
                        lit ''<!-- Dossiers actifs''])]\<close>

text \<open>\<open>(class="flex flex-col gap-sm">\s*\n)(.*?)(</div>\s*</div>\s*</div>\s*</div>\s*</section>\s*\n\s*<!-- CTA Soutenir)\<close>\<close>

definition pattern_formations_mini :: regex where
  \<open>pattern_formations_mini =
     seqs [Grp 1 (seqs [lit ''class="flex flex-col gap-sm">'', ws, nl]),
           Grp 2 (Lazy DotAll),
           Grp 3 (seqs [lit ''</div>'', ws, lit ''</div>'', ws, lit ''</div>'', ws, lit ''</div>'',
                        ws, lit ''</section>'', ws, nl, ws, lit ''<!-- CTA Soutenir''])]\<close>

text \<open>\<open>(data-filter-container[^>]*>\s*\n)(.*?)(</div>\s*</section>\s*\n\s*<!-- Nos formats|</div>\s*\n\s*</div>\s*\n\s*</section>\s*\n\s*<!-- Nos formats)\<close>\<close>

definition pattern_formations :: regex where
  \<open>pattern_formations =
     seqs [Grp 1 (seqs [lit ''data-filter-container'', Star (Not CHR ''>''), lit ''>'', ws, nl]),
           Grp 2 (Lazy DotAll),
           Grp 3 (Alt (seqs [lit ''</div>'', ws, lit ''</section>'', ws, nl, ws,
                             lit ''<!-- Nos formats''])
                      (seqs [lit ''</div>'', ws, nl, ws, lit ''</div>'', ws, nl, ws,
                             lit ''</section>'', ws, nl, ws, lit ''<!-- Nos formats'']))]\<close>

text \<open>\<open>(data-filter-container[^>]*>\s*\n)(.*?)(</div>\s*\n\s*<!-- Pagination)\<close>\<close>

definition pattern_publications :: regex where
  \<open>pattern_publications =
     seqs [Grp 1 (seqs [lit ''data-filter-container'', Star (Not CHR ''>''), lit ''>'', ws, nl]),
           Grp 2 (Lazy DotAll),
           Grp 3 (seqs [lit ''</div>'', ws, nl, ws, lit ''<!-- Pagination''])]\<close>

text \<open>\<open>(<h1 class="article-header__title">)(.*?)(</h1>)\<close>, without \<open>re.DOTALL\<close>\<close>

definition pattern_title :: regex where
  \<open>pattern_title =
     seqs [Grp 1 (lit ''<h1 class="article-header__title">''),
           Grp 2 (Lazy Dot),
           Grp 3 (lit ''</h1>'')]\<close>

text \<open>\<open>(class="tag-list">\s*\n)(.*?)(</div>\s*\n\s*</div>\s*\n\s*<!-- Related)\<close>\<close>

definition pattern_tags :: regex where
  \<open>pattern_tags =
     seqs [Grp 1 (seqs [lit ''class="tag-list">'', ws, nl]),
           Grp 2 (Lazy DotAll),
           Grp 3 (seqs [lit ''</div>'', ws, nl, ws, lit ''</div>'', ws, nl, ws,
                        lit ''<!-- Related''])]\<close>

text \<open>\<open>(\d+) dossiers thematiques\<close>, with its e-acute\<close>

definition pattern_count :: regex where
  "pattern_count =
     seqs [Grp 1 (Plus Digit), lit ('' dossiers th'' @ [CHR 0xE9] @ ''matiques'')]"

text \<open>
  The replacement templates, as the raw f-strings of the source build them:
  \<open>rf'\g<1>{block}\n\g<3>'\<close> and \<open>rf'\1{block}\n\g<3>'\<close> (the \<open>\n\<close> is a backslash and
  an \<open>n\<close>, which the template parser turns into a newline), and \<open>rf'\1{title}\3'\<close>.
  The block is pasted into the template as it is.
\<close>

definition template_g1_g3 :: "string \<Rightarrow> string" where
  "template_g1_g3 block =
     [CHR 0x5C] @ ''g<1>'' @ block @ [CHR 0x5C] @ ''n'' @ [CHR 0x5C] @ ''g<3>''"

definition template_1_g3 :: "string \<Rightarrow> string" where
  "template_1_g3 block =
     [CHR 0x5C] @ ''1'' @ block @ [CHR 0x5C] @ ''n'' @ [CHR 0x5C] @ ''g<3>''"

definition template_1_3 :: "string \<Rightarrow> string" where
  "template_1_3 title = [CHR 0x5C] @ ''1'' @ title @ [CHR 0x5C] @ ''3''"

section \<open>inject-content.py: the injection functions\<close>

text \<open>\<open>d.get("title") and len(d["title"]) > n\<close>\<close>

definition long_title :: "nat \<Rightarrow> item \<Rightarrow> bool" where
  "long_title n d = (dget d ''title'' '''' \<noteq> [] \<and> length (dget d ''title'' '''') > n)"

text \<open>The fallback of \<open>inject_homepage\<close>: \<open>fa["title"]\<close> and \<open>fa["url"]\<close> raise
  \<open>KeyError\<close> when the key is missing.\<close>

fun featured_from :: "item list \<Rightarrow> py_error + item list" where
  "featured_from [] = Inr []"
| "featured_from (fa # fas) =
     (case strs fa ''title'' of
        None \<Rightarrow> Inl (KeyError ''title'')
      | Some t \<Rightarrow>
          (case strs fa ''url'' of
             None \<Rightarrow> Inl (KeyError ''url'')
           | Some u \<Rightarrow>
               bind (featured_from fas)
                 (\<lambda>rest. Inr (\<lparr>strs = [''title'' \<mapsto> t, ''url'' \<mapsto> u, ''body_text'' \<mapsto> '''',
                                        ''date'' \<mapsto> ''''],
                                kwds = []\<rparr> # rest))))"

definition inject_homepage :: "world \<Rightarrow> py_error + world" where
  \<open>inject_homepage w0 =
     (let w = say ''Injecting into index.html...'' w0 in
      case read_text w ''index.html'' of
        None \<Rightarrow> Inl (FileNotFoundError ''index.html'')
      | Some html \<Rightarrow>
          (let articles = load_json w ''content/articles/all.json'';
               formations = load_json w ''content/formations/all.json'';
               featured0 = take 3 (filter (long_title 10) articles)
           in bind (if featured0 = []
                    then (case homepage w of
                            None \<Rightarrow> Inr []
                          | Some fas \<Rightarrow> featured_from (take 3 fas))
                    else Inr featured0)
                (\<lambda>featured.
           bind (if featured \<noteq> []
                 then re_sub pattern_featured
                        (template_g1_g3
                           (join ''\<newline>\<newline>''
                              (map (\<lambda>(i, a). make_card_html a i) (enumerate 0 featured))))
                        html
                 else Inr html)
                (\<lambda>html1.
           let real_formations =
                 take 4 (filter (\<lambda>f. long_title 10 f
                                      \<and> \<not> startswith (dget f ''title'' '''') ''20'')
                           formations)
           in bind (if real_formations \<noteq> []
                    then re_sub pattern_formations_mini
                           (template_g1_g3
                              (join ''\<newline>\<newline>'' (map make_formation_mini_html real_formations)))
                           html1
                    else Inr html1)
                (\<lambda>html2.
           Inr (say (''  -> Updated with '' @ str_nat (length featured) @ '' articles, ''
                     @ str_nat (length real_formations) @ '' formations'')
                  (write_text ''index.html'' html2 w)))))))\<close>

definition inject_formations :: "world \<Rightarrow> py_error + world" where
  \<open>inject_formations w0 =
     (let w = say ''Injecting into formations.html...'' w0 in
      case read_text w ''formations.html'' of
        None \<Rightarrow> Inr (say ''  -> formations.html not found, skipping'' w)
      | Some html \<Rightarrow>
          (let formations = load_json w ''content/formations/all.json'';
               real = take 6 (filter (\<lambda>f. long_title 10 f
                                          \<and> \<not> startswith (dget f ''title'' '''') ''20'')
                                formations)
           in if real \<noteq> []
              then bind (re_sub pattern_formations
                           (template_g1_g3
                              (join ''\<newline>\<newline>'' (map make_formation_card_html real)))
                           html)
                     (\<lambda>new_html.
                        if new_html \<noteq> html
                        then Inr (say (''  -> Updated with '' @ str_nat (length real)
                                       @ '' formations'')
                                    (write_text ''formations.html'' new_html w))
                        else Inr (say ''  -> Pattern not matched, no changes'' w))
              else Inr (say ''  -> No formations data to inject'' w)))\<close>

definition boilerplate_titles :: "string list" where
  "boilerplate_titles =
     [''plein droit'', ''abonnez-vous'', ''faire un don'', ''nous contacter'',
      ''mentions l'' @ [CHR 0xE9] @ ''gales'']"

definition inject_publications :: "world \<Rightarrow> py_error + world" where
  \<open>inject_publications w0 =
     (let w = say ''Injecting into publications.html...'' w0 in
      case read_text w ''publications.html'' of
        None \<Rightarrow> Inr (say ''  -> publications.html not found, skipping'' w)
      | Some html \<Rightarrow>
          (let publications = load_json w ''content/publications/all.json'';
               real = take 12 (filter (\<lambda>p. long_title 5 p
                                           \<and> lower (dget p ''title'' '''')
                                               \<notin> set boilerplate_titles)
                                 publications)
           in if real \<noteq> []
              then bind (re_sub pattern_publications
                           (template_g1_g3
                              (join ''\<newline>\<newline>'' (map make_pub_card_html real)))
                           html)
                     (\<lambda>new_html.
                        if new_html \<noteq> html
                        then Inr (say (''  -> Updated with '' @ str_nat (length real)
                                       @ '' publications'')
                                    (write_text ''publications.html'' new_html w))
                        else Inr (say ''  -> Pattern not matched, no changes'' w))
              else Inr (say ''  -> No publications data to inject'' w)))\<close>

text \<open>The richest article: the first one with the longest body above 200 characters.\<close>

fun richest :: "item option \<Rightarrow> item list \<Rightarrow> item option" where
  "richest best [] = best"
| "richest best (a # articles) =
     (let body = dget a ''body_text'' ''''
      in richest
           (if body \<noteq> [] \<and> length body > 200
               \<and> (case best of
                     None \<Rightarrow> True
                   | Some b \<Rightarrow> length body > length (dget b ''body_text'' ''''))
            then Some a else best)
           articles)"

definition tag_html :: "string \<Rightarrow> string" where
  \<open>tag_html kw =
     ''              <a href="recherche.html?tag=''
       @ escape (replace_char CHR '' '' ''-'' (lower kw))
       @ ''" class="tag">'' @ escape kw @ ''</a>''\<close>

definition inject_article :: "world \<Rightarrow> py_error + world" where
  \<open>inject_article w0 =
     (let w = say ''Injecting into article.html...'' w0 in
      case read_text w ''article.html'' of
        None \<Rightarrow> Inl (FileNotFoundError ''article.html'')
      | Some html \<Rightarrow>
          (case richest None (load_json w ''content/articles/all.json'') of
             None \<Rightarrow> Inr (say ''  -> No suitable article found'' w)
           | Some best \<Rightarrow>
               (let title = escape (clean (dget best ''title'' ''''));
                    date = escape (clean (dget best ''date'' ''''));
                    keywords = kwds best
                in bind (if title \<noteq> []
                         then re_sub pattern_title (template_1_3 title) html
                         else Inr html)
                     (\<lambda>html1.
                bind (if keywords \<noteq> []
                      then re_sub pattern_tags
                             (template_1_g3
                                (join ''\<newline>'' (map tag_html (take 10 keywords))))
                             html1
                      else Inr html1)
                     (\<lambda>html2.
                Inr (say (''  -> Updated with article: '' @ take 60 title)
                       (write_text ''article.html'' html2 w)))))))\<close>

definition inject_dossiers :: "world \<Rightarrow> py_error + world" where
  \<open>inject_dossiers w0 =
     (let w = say ''Injecting into dossiers.html...'' w0 in
      case read_text w ''dossiers.html'' of
        None \<Rightarrow> Inr (say ''  -> dossiers.html not found, skipping'' w)
      | Some html \<Rightarrow>
          (let dossiers = load_json w ''content/dossiers/all.json'';
               real = filter (\<lambda>d. long_title 3 d \<and> dget d ''title'' '''' \<noteq> ''Aider le Gisti'')
                        dossiers
           in if real = [] then Inr (say ''  -> No dossier data to inject'' w)
              else
                (let count = length real
                 in bind (re_sub pattern_count
                            (str_nat count @ '' dossiers th'' @ [CHR 0xE9] @ ''matiques'') html)
                      (\<lambda>html1.
                         Inr (say (''  -> Updated with '' @ str_nat count
                                   @ '' dossiers metadata'')
                                (write_text ''dossiers.html'' html1 w))))))\<close>

definition main :: "world \<Rightarrow> py_error + world" where
  "main w =
     bind (inject_homepage
             (say (replicate 60 CHR ''='') (say ''Content Injection''
                (say (replicate 60 CHR ''='') w))))
       (\<lambda>w1. bind (inject_article w1)
       (\<lambda>w2. bind (inject_formations w2)
       (\<lambda>w3. bind (inject_publications w3)
       (\<lambda>w4. bind (inject_dossiers w4)
       (\<lambda>w5. Inr (say (replicate 60 CHR ''='') (say ''INJECTION COMPLETE''
                     (say (CHR 0x0A # replicate 60 CHR ''='') w5))))))))"

section \<open>scrape-gisti.py: the fetcher\<close>

text \<open>
  The world outside the program is a parameter: the MD5 digest that names a cache file,
  the answer of the server to a GET (how long the call takes and either the body of a
  successful response, \<open>response.text\<close>, \<open>Inr\<close>, or the message of the
  \<open>RequestException\<close> that \<open>session.get\<close> or \<open>raise_for_status\<close> raises,
  \<open>Inl\<close>), the line separator of the platform (\<open>os.linesep\<close>: a line feed on
  POSIX, a carriage return and a line feed on Windows), and the parser of
  BeautifulSoup, which is read only through \<open>select_one\<close>, \<open>select\<close>, \<open>get_text\<close>
  and \<open>str\<close>.
\<close>

record element =
  get_text :: string
  to_str :: string

record soup =
  select_one :: "string \<Rightarrow> element option"
  select :: "string \<Rightarrow> element list"

record env =
  md5_hexdigest :: "string \<Rightarrow> string"
  http_get :: "string \<Rightarrow> real \<times> (string + string)"
  linesep :: string
  parse :: "string \<Rightarrow> soup"

text \<open>
  The state of the process: the clock that \<open>time.time()\<close> reads (seconds), the global
  \<open>last_request_time\<close>, the cache directory (file name to the characters the file
  holds, decoded as UTF-8), and three logs that the program itself never reads: the outbound requests
  with the time each was issued, the arguments of \<open>time.sleep\<close>, and the lines printed.
  A sleep advances the clock by its argument, a GET by the time the server takes.
\<close>

record fetcher =
  clock :: real
  last_request_time :: real
  cache :: "string \<rightharpoonup> string"
  requests :: "(real \<times> string) list"
  sleeps :: "real list"
  out :: "string list"

definition RATE_LIMIT :: real where
  "RATE_LIMIT = 2"

text \<open>The process as it starts at time \<open>t\<close>, with an empty cache directory.\<close>

definition initial :: "real \<Rightarrow> fetcher" where
  "initial t = \<lparr>clock = t, last_request_time = 0, cache = Map.empty, requests = [],
                 sleeps = [], out = []\<rparr>"

definition get_cache_path :: "env \<Rightarrow> string \<Rightarrow> string" where
  "get_cache_path e url = md5_hexdigest e url @ ''.html''"

text \<open>
  The cache files are written with \<open>write_text\<close> and read with \<open>read_text\<close>, in
  text mode: what a hit returns is the file with its newlines translated.
\<close>

definition sleep :: "real \<Rightarrow> fetcher \<Rightarrow> fetcher" where
  "sleep d s = s\<lparr>clock := clock s + d, sleeps := sleeps s @ [d]\<rparr>"

definition fetch :: "env \<Rightarrow> string \<Rightarrow> fetcher \<Rightarrow> string option \<times> fetcher" where
  "fetch e url s =
     (let cache_path = get_cache_path e url in
      case cache s cache_path of
        Some stored \<Rightarrow>
          (Some (universal_newlines stored), s\<lparr>out := out s @ [''  [cache] '' @ url]\<rparr>)
      | None \<Rightarrow>
          (let elapsed = clock s - last_request_time s;
               s1 = (if elapsed < RATE_LIMIT then sleep (RATE_LIMIT - elapsed) s else s);
               (took, response) = http_get e url;
               s2 = s1\<lparr>requests := requests s1 @ [(clock s1, url)], clock := clock s1 + took\<rparr>
           in case response of
                Inr text \<Rightarrow>
                  (Some text,
                   s2\<lparr>last_request_time := clock s2,
                      cache := (cache s2)(cache_path \<mapsto> write_newlines (linesep e) text),
                      out := out s2 @ [''  [fetch] '' @ url]\<rparr>)
              | Inl msg \<Rightarrow>
                  (None, s2\<lparr>out := out s2 @ [''  [error] '' @ url @ '': '' @ msg]\<rparr>)))"

text \<open>A run of fetches, one after the other, as the scrapers make them.\<close>

fun fetch_all :: "env \<Rightarrow> string list \<Rightarrow> fetcher \<Rightarrow> fetcher" where
  "fetch_all e [] s = s"
| "fetch_all e (url # urls) s = fetch_all e urls (snd (fetch e url s))"

section \<open>scrape-gisti.py: the article scraper\<close>

record article =
  a_url :: string
  a_title :: string
  a_date :: string
  a_rubrique :: string
  a_body_text :: string
  a_body_html :: string
  a_keywords :: "string list"

text \<open>
  The loops over the selectors of one field: the variable starts empty, the first
  selector for which \<open>select_one\<close> finds an element sets it and breaks. The loops for the
  title, the date and the rubrique have this body; the loop for the body sets two
  variables and cuts the text at 1000 characters.
\<close>

fun first_text :: "soup \<Rightarrow> string list \<Rightarrow> string" where
  "first_text sp [] = []"
| "first_text sp (sel # sels) =
     (case select_one sp sel of
        Some el \<Rightarrow> clean_text (get_text el)
      | None \<Rightarrow> first_text sp sels)"

fun first_body :: "soup \<Rightarrow> string list \<Rightarrow> string \<times> string" where
  "first_body sp [] = ([], [])"
| "first_body sp (sel # sels) =
     (case select_one sp sel of
        Some el \<Rightarrow> (to_str el, take 1000 (clean_text (get_text el)))
      | None \<Rightarrow> first_body sp sels)"

fun collect_keywords :: "element list \<Rightarrow> string list \<Rightarrow> string list" where
  "collect_keywords [] kws = kws"
| "collect_keywords (kw # rest) kws =
     (let kw_text = clean_text (get_text kw)
      in collect_keywords rest
           (if kw_text \<noteq> [] \<and> kw_text \<notin> set kws then kws @ [kw_text] else kws))"

definition title_selectors :: "string list" where
  "title_selectors =
     [''h1.titre'', ''.titre-article'', ''h1.entry-title'', ''#contenu h1'', ''h1'']"

definition body_selectors :: "string list" where
  "body_selectors = [''.texte'', ''.article-texte'', ''.entry-content'', ''#contenu .texte'']"

definition date_selectors :: "string list" where
  "date_selectors = [''.date'', ''.date-publication'', ''time'', ''.post-date'']"

definition rubrique_selectors :: "string list" where
  "rubrique_selectors = [''.rubrique a'', ''.fil-ariane a'', ''nav.breadcrumb a'']"

definition scrape_single_article ::
  "env \<Rightarrow> string \<Rightarrow> fetcher \<Rightarrow> article option \<times> fetcher" where
  "scrape_single_article e url s =
     (case fetch e url s of
        (None, s') \<Rightarrow> (None, s')
      | (Some html, s') \<Rightarrow>
          if html = [] then (None, s')
          else
            (let sp = parse e html;
                 title = first_text sp title_selectors;
                 (body_html, body) = first_body sp body_selectors;
                 date = first_text sp date_selectors;
                 keywords =
                   collect_keywords
                     (select sp ''.mots-cles a, .tags a, .mot-cle a, .groupe-mots a'') [];
                 rubrique = first_text sp rubrique_selectors
             in if title = [] then (None, s')
                else (Some \<lparr>a_url = url, a_title = title, a_date = date,
                             a_rubrique = rubrique, a_body_text = body,
                             a_body_html = body_html, a_keywords = keywords\<rparr>, s')))"

text \<open>
  The deduplication at the end of \<open>scrape_articles\<close>. The dict \<open>unique\<close> keeps its keys
  in the order they were inserted, so it is a list of pairs here; \<open>list(unique.values())\<close>
  is the list of the second components.
\<close>

fun dedup_loop :: "(string \<times> article) list \<Rightarrow> article list \<Rightarrow> (string \<times> article) list" where
  "dedup_loop unique [] = unique"
| "dedup_loop unique (a # articles) =
     dedup_loop
       (if a_url a \<notin> fst ` set unique then unique @ [(a_url a, a)] else unique)
       articles"

definition deduplicate :: "article list \<Rightarrow> article list" where
  "deduplicate articles = map snd (dedup_loop [] articles)"

text \<open>
  What the deduplication is meant to compute, in the words of the specification: the
  items whose url has not occurred earlier in the list, in the order of the list.
\<close>

definition first_occurrences :: "article list \<Rightarrow> article list" where
  "first_occurrences xs =
     map ((!) xs) (filter (\<lambda>i. a_url (xs ! i) \<notin> a_url ` set (take i xs)) [0..<length xs])"


section \<open>Example inputs\<close>

definition art1 :: item where
  "art1 = \<lparr>strs = [''title'' \<mapsto> ''Foo'', ''url'' \<mapsto> ''https://x/a''], kwds = []\<rparr>"

definition art2 :: item where
  "art2 = \<lparr>strs = [''title'' \<mapsto> ''Foo'', ''url'' \<mapsto> ''https://x/b''], kwds = []\<rparr>"

text \<open>The two raw items of the specification's scenario: one url, two titles.\<close>

definition raw_foo :: article where
  "raw_foo = \<lparr>a_url = ''https://x/a'', a_title = ''Foo'', a_date = [], a_rubrique = [],
               a_body_text = [], a_body_html = [], a_keywords = []\<rparr>"

definition raw_bar :: article where
  "raw_bar = \<lparr>a_url = ''https://x/a'', a_title = ''Bar'', a_date = [], a_rubrique = [],
               a_body_text = [], a_body_html = [], a_keywords = []\<rparr>"

definition raw_baz :: article where
  "raw_baz = \<lparr>a_url = ''https://x/b'', a_title = ''Baz'', a_date = [], a_rubrique = [],
               a_body_text = [], a_body_html = [], a_keywords = []\<rparr>"

text \<open>
  A server that answers the first url with an HTTP error and the second with a page,
  each after a tenth of a second; the digest is a stand-in that names the cache file
  after the url itself. The parser finds an element for the second title selector and
  for the third date selector, and nothing else.
\<close>

definition page_soup :: soup where
  "page_soup =
     \<lparr>select_one = (\<lambda>sel.
          if sel = ''.titre-article'' then Some \<lparr>get_text = ''  Droit  d'' @ [CHR 0x27] @ ''asile '', to_str = ''<div>''\<rparr>
          else if sel = ''h1'' then Some \<lparr>get_text = ''GISTI'', to_str = ''<h1>''\<rparr>
          else if sel = ''time'' then Some \<lparr>get_text = ''12 mars 2025'', to_str = ''<time>''\<rparr>
          else None),
      select = (\<lambda>sel. [])\<rparr>"

definition demo_env :: env where
  "demo_env =
     \<lparr>md5_hexdigest = (\<lambda>url. url),
      http_get = (\<lambda>url.
        if url = ''https://www.gisti.org/spip.php?article1''
        then (1 / 10, Inl ''404 Client Error'')
        else (1 / 10, Inr ''<html>page</html>'')),
      linesep = [CHR 0x0A],
      parse = (\<lambda>html. page_soup)\<rparr>"

definition cached_state :: fetcher where
  "cached_state =
     \<lparr>clock = 1000, last_request_time = 999,
      cache = [''https://www.gisti.org/spip.php?article2.html'' \<mapsto> ''<html>cached</html>''],
      requests = [(999, ''https://www.gisti.org/spip.php?article2'')],
      sleeps = [], out = []\<rparr>"

text \<open>
  A POSIX machine and a server that answers every url with a page whose two lines are
  separated by a carriage return and a line feed.
\<close>

definition crlf_page :: string where
  "crlf_page = ''<p>a</p>'' @ [CHR 0x0D, CHR 0x0A] @ ''<p>b</p>''"

definition crlf_env :: env where
  "crlf_env =
     \<lparr>md5_hexdigest = (\<lambda>url. url),
      http_get = (\<lambda>url. (1 / 10, Inr crlf_page)),
      linesep = [CHR 0x0A],
      parse = (\<lambda>html. page_soup)\<rparr>"




definition url_a :: string where
  "url_a = ''https://www.gisti.org/spip.php?article1''"

definition url_b :: string where
  "url_b = ''https://www.gisti.org/spip.php?article2''"

text \<open>The record of the specification's card scenario, and the same record with an
  empty date.\<close>

definition lorem_body :: string where
  "lorem_body = concat (replicate 50 ''Lorem ipsum '')"

definition acces_title :: string where
  "acces_title = ''Acc'' @ [CHR 0xE8] @ ''s aux soins des '' @ [CHR 0xE9] @ ''trangers''"

definition scenario :: item where
  "scenario =
     \<lparr>strs = [''title'' \<mapsto> acces_title, ''date'' \<mapsto> ''12 mars 2025'',
              ''body_text'' \<mapsto> lorem_body],
      kwds = []\<rparr>"

definition scenario_undated :: item where
  "scenario_undated =
     \<lparr>strs = [''title'' \<mapsto> acces_title, ''date'' \<mapsto> '''',
              ''body_text'' \<mapsto> lorem_body],
      kwds = []\<rparr>"

text \<open>A publication whose title has an ampersand as its thirtieth character.\<close>

definition pub_amp :: item where
  "pub_amp = \<lparr>strs = [''title'' \<mapsto> replicate 29 CHR ''A'' @ ''&B''], kwds = []\<rparr>"

text \<open>
  A site with \<open>index.html\<close> and no \<open>article.html\<close>, and no collection on disk.
\<close>

definition plain_page :: string where
  \<open>plain_page = ''<html><body><p>Accueil</p></body></html>''\<close>

definition site_without_article :: world where
  "site_without_article =
     \<lparr>files = [''index.html'' \<mapsto> plain_page], os_linesep = [CHR 0x0A],
      collections = Map.empty, homepage = None, printed = []\<rparr>"

text \<open>
  A site whose \<open>index.html\<close> and \<open>formations.html\<close> have none of the anchors, with one
  article and one formation to inject.
\<close>

definition one_article :: item where
  "one_article =
     \<lparr>strs = [''title'' \<mapsto> ''Droit au sejour des etrangers'', ''url'' \<mapsto> url_a,
              ''body_text'' \<mapsto> ''Texte.'', ''date'' \<mapsto> ''12 mars 2025''],
      kwds = []\<rparr>"

definition one_formation :: item where
  "one_formation =
     \<lparr>strs = [''title'' \<mapsto> ''Le droit des etrangers en pratique'', ''url'' \<mapsto> url_b,
              ''format'' \<mapsto> ''presentiel''],
      kwds = []\<rparr>"

definition site_without_anchors :: world where
  "site_without_anchors =
     \<lparr>files = [''index.html'' \<mapsto> plain_page, ''formations.html'' \<mapsto> plain_page],
      os_linesep = [CHR 0x0A],
      collections = [''content/articles/all.json'' \<mapsto> [one_article],
                     ''content/formations/all.json'' \<mapsto> [one_formation]],
      homepage = None, printed = []\<rparr>"

text \<open>
  A site whose \<open>index.html\<close> has the anchor of the featured cards, and one article
  whose title holds a backslash followed by the digit 2.
\<close>

definition anchored_page :: string where
  \<open>anchored_page =
     ''<div class="grid grid-3 reveal">\<newline>'' @
     ''<p>old</p>\<newline>'' @
     ''</div>\<newline></div>\<newline></section>\<newline>'' @
     ''<!-- Dossiers actifs -->''\<close>

definition backslash_article :: item where
  "backslash_article =
     \<lparr>strs = [''title'' \<mapsto> ''Dossier '' @ [CHR 0x5C] @ ''2 annexes''], kwds = []\<rparr>"

definition site_with_backslash :: world where
  "site_with_backslash =
     \<lparr>files = [''index.html'' \<mapsto> anchored_page], os_linesep = [CHR 0x0A],
      collections = [''content/articles/all.json'' \<mapsto> [backslash_article]],
      homepage = None, printed = []\<rparr>"

definition site_with_article :: world where
  "site_with_article =
     \<lparr>files = [''index.html'' \<mapsto> anchored_page], os_linesep = [CHR 0x0A],
      collections = [''content/articles/all.json'' \<mapsto> [one_article]],
      homepage = None, printed = []\<rparr>"

text \<open>What the file of a document holds after a run, when the run did not raise.\<close>

definition document_after :: "py_error + world \<Rightarrow> string \<Rightarrow> string option" where
  "document_after r path = (case r of Inl e \<Rightarrow> None | Inr w \<Rightarrow> files w path)"

definition printed_after :: "py_error + world \<Rightarrow> string list" where
  "printed_after r = (case r of Inl e \<Rightarrow> [] | Inr w \<Rightarrow> printed w)"

definition raised :: "py_error + world \<Rightarrow> py_error option" where
  "raised r = (case r of Inl e \<Rightarrow> Some e | Inr w \<Rightarrow> None)"

text \<open>Running an injection function a second time on the site the first run left.\<close>

definition twice :: "(world \<Rightarrow> py_error + world) \<Rightarrow> world \<Rightarrow> py_error + world" where
  "twice inject w = bind (inject w) inject"

section \<open>The card does not depend on the record's url\<close>

lemma make_card_html_link:
  \<open>\<exists>p s. make_card_html a i = p @ ''<a href="article.html">'' @ s\<close>
  unfolding make_card_html_def Let_def
  by (rule exI [of _ \<open>''          <article class="card">\<newline>'' @
         ''            <div class="card__body">\<newline>'' @
         ''              <span class="card__overline">Article</span>\<newline>'' @
         ''              <h3 class="card__title">\<newline>'' @
         ''                ''\<close>]) simp

text \<open>
  C10. Two article records whose string fields agree everywhere but at \<open>url\<close> give the
  same card, whatever the index; and the card of any record holds the link
  \<open><a href="article.html">\<close>, a constant of the template: the url is read and
  escaped, and then never used.
\<close>

theorem make_card_html_ignores_url:
  assumes "\<forall>k. k \<noteq> ''url'' \<longrightarrow> strs a k = strs b k"
  shows \<open>make_card_html a i = make_card_html b j
         \<and> sublist ''<a href="article.html">'' (make_card_html a i)\<close>
proof -
  have same: "dget a k d = dget b k d" if "k \<noteq> ''url''" for k d
    using assms that by (simp add: dget_def)
  have eq: "make_card_html a i = make_card_html b j"
    by (simp add: make_card_html_def Let_def same)
  have link: \<open>sublist ''<a href="article.html">'' (make_card_html a i)\<close>
    using make_card_html_link [of a i] unfolding sublist_def by simp
  from eq link show ?thesis by simp
qed

theorem make_card_html_ignores_url_witness:
  \<open>art1 \<noteq> art2 \<and> make_card_html art1 0 = make_card_html art2 0
     \<and> sublist ''<a href="article.html">'' (make_card_html art1 0)\<close>
proof -
  have h: "\<forall>k. k \<noteq> ''url'' \<longrightarrow> strs art1 k = strs art2 k"
    by (simp add: art1_def art2_def)
  have d: "art1 \<noteq> art2"
    by (simp add: art1_def art2_def fun_eq_iff)
  from make_card_html_ignores_url [OF h, of 0 0] d show ?thesis by blast
qed

section \<open>Deduplication by url\<close>

lemma first_occurrences_snoc:
  "first_occurrences (xs @ [a]) =
     first_occurrences xs @ (if a_url a \<in> a_url ` set xs then [] else [a])"
proof -
  have 1: "filter (\<lambda>i. a_url ((xs @ [a]) ! i) \<notin> a_url ` set (take i (xs @ [a]))) [0..<length xs]
         = filter (\<lambda>i. a_url (xs ! i) \<notin> a_url ` set (take i xs)) [0..<length xs]"
    by (rule filter_cong) (auto simp: nth_append)
  have 2: "map ((!) (xs @ [a])) (filter (\<lambda>i. a_url (xs ! i) \<notin> a_url ` set (take i xs)) [0..<length xs])
         = map ((!) xs) (filter (\<lambda>i. a_url (xs ! i) \<notin> a_url ` set (take i xs)) [0..<length xs])"
    by (rule map_cong) (auto simp: nth_append)
  have 3: "[0..<length (xs @ [a])] = [0..<length xs] @ [length xs]"
    by simp
  show ?thesis
    unfolding first_occurrences_def 3 filter_append map_append 1 2
    by simp
qed

lemma first_occurrences_Nil [simp]: "first_occurrences [] = []"
  by (simp add: first_occurrences_def)

lemma first_occurrences_urls: "a_url ` set (first_occurrences xs) = a_url ` set xs"
  by (induction xs rule: rev_induct) (auto simp: first_occurrences_snoc)

lemma dedup_loop_first_occurrences:
  "dedup_loop (map (\<lambda>a. (a_url a, a)) (first_occurrences ps)) xs
     = map (\<lambda>a. (a_url a, a)) (first_occurrences (ps @ xs))"
proof (induction xs arbitrary: ps)
  case Nil
  then show ?case by simp
next
  case (Cons x xs)
  have keys: "fst ` set (map (\<lambda>a. (a_url a, a)) (first_occurrences ps)) = a_url ` set ps"
    using first_occurrences_urls [of ps] by (simp add: image_image)
  have step: "(if a_url x \<notin> fst ` set (map (\<lambda>a. (a_url a, a)) (first_occurrences ps))
               then map (\<lambda>a. (a_url a, a)) (first_occurrences ps) @ [(a_url x, x)]
               else map (\<lambda>a. (a_url a, a)) (first_occurrences ps))
             = map (\<lambda>a. (a_url a, a)) (first_occurrences (ps @ [x]))"
    unfolding keys by (simp add: first_occurrences_snoc)
  show ?case
    using Cons.IH [of "ps @ [x]"] by (simp only: dedup_loop.simps step append_assoc append_Cons append_Nil)
qed

lemma deduplicate_eq: "deduplicate xs = first_occurrences xs"
  using dedup_loop_first_occurrences [of "[]" xs]
  by (simp add: deduplicate_def comp_def)

lemma first_occurrences_distinct: "distinct (map a_url (first_occurrences xs))"
proof (induction xs rule: rev_induct)
  case Nil
  then show ?case by simp
next
  case (snoc x xs)
  then show ?case
    using first_occurrences_urls [of xs] by (auto simp: first_occurrences_snoc)
qed

lemma first_occurrences_subseq: "subseq (first_occurrences xs) xs"
proof (induction xs rule: rev_induct)
  case Nil
  then show ?case by simp
next
  case (snoc x xs)
  then show ?case
    by (auto simp: first_occurrences_snoc intro: list_emb_append_mono)
qed

lemma find_snoc:
  "find P (xs @ [x]) = (case find P xs of Some y \<Rightarrow> Some y | None \<Rightarrow> if P x then Some x else None)"
  by (induction xs) auto

lemma first_occurrences_find:
  "a \<in> set (first_occurrences xs) \<Longrightarrow> find (\<lambda>b. a_url b = a_url a) xs = Some a"
proof (induction xs rule: rev_induct)
  case Nil
  then show ?case by simp
next
  case (snoc x xs)
  show ?case
  proof (cases "a \<in> set (first_occurrences xs)")
    case True
    then show ?thesis using snoc.IH by (simp add: find_snoc)
  next
    case False
    with snoc.prems have ax: "a = x" and new: "a_url x \<notin> a_url ` set xs"
      by (auto simp: first_occurrences_snoc split: if_splits)
    from new have "find (\<lambda>b. a_url b = a_url x) xs = None"
      unfolding find_None_iff by (metis imageI)
    then show ?thesis using ax by (simp add: find_snoc)
  qed
qed

text \<open>
  C5. The deduplication returns the items whose url has not occurred earlier, in the
  order of the list: the urls of the result are distinct, they are the urls of the
  input, every item kept is the first item of the input with its url, and the result is
  a subsequence of the input. The two raw items with url \<open>https://x/a\<close> and titles
  \<open>Foo\<close> then \<open>Bar\<close> give the one-element collection whose title is \<open>Foo\<close>.
\<close>

theorem deduplicate_first_wins:
  "deduplicate xs = first_occurrences xs
   \<and> distinct (map a_url (deduplicate xs))
   \<and> a_url ` set (deduplicate xs) = a_url ` set xs
   \<and> (\<forall>a \<in> set (deduplicate xs). find (\<lambda>b. a_url b = a_url a) xs = Some a)
   \<and> subseq (deduplicate xs) xs
   \<and> deduplicate [raw_foo, raw_bar] = [raw_foo]
   \<and> map a_title (deduplicate [raw_foo, raw_bar]) = [''Foo'']"
proof -
  have ex: "deduplicate [raw_foo, raw_bar] = [raw_foo]"
    by (simp add: deduplicate_def raw_foo_def raw_bar_def)
  have t: "map a_title (deduplicate [raw_foo, raw_bar]) = [''Foo'']"
    unfolding ex by (simp add: raw_foo_def)
  have d: "distinct (map a_url (deduplicate xs))"
    unfolding deduplicate_eq by (rule first_occurrences_distinct)
  have u: "a_url ` set (deduplicate xs) = a_url ` set xs"
    unfolding deduplicate_eq by (rule first_occurrences_urls)
  have f: "\<forall>a \<in> set (deduplicate xs). find (\<lambda>b. a_url b = a_url a) xs = Some a"
    unfolding deduplicate_eq by (blast intro: first_occurrences_find)
  have q: "subseq (deduplicate xs) xs"
    unfolding deduplicate_eq by (rule first_occurrences_subseq)
  from deduplicate_eq [of xs] d u f q ex t show ?thesis
    by (intro conjI)
qed

theorem deduplicate_first_wins_witness:
  "deduplicate [raw_foo, raw_baz, raw_bar, raw_baz] = [raw_foo, raw_baz]
   \<and> find (\<lambda>b. a_url b = a_url raw_foo) [raw_foo, raw_baz, raw_bar, raw_baz] = Some raw_foo
   \<and> map a_title (deduplicate [raw_foo, raw_bar]) = [''Foo'']"
proof -
  have fo: "first_occurrences [raw_foo, raw_baz, raw_bar, raw_baz] = [raw_foo, raw_baz]"
    by (simp add: first_occurrences_def raw_foo_def raw_bar_def raw_baz_def upt_conv_Cons)
  have fd: "find (\<lambda>b. a_url b = a_url raw_foo) [raw_foo, raw_baz, raw_bar, raw_baz]
              = Some raw_foo"
    by simp
  note th = deduplicate_first_wins [of "[raw_foo, raw_baz, raw_bar, raw_baz]"]
  from th have 1: "deduplicate [raw_foo, raw_baz, raw_bar, raw_baz]
                     = first_occurrences [raw_foo, raw_baz, raw_bar, raw_baz]"
    by (rule conjunct1)
  from th have 2: "map a_title (deduplicate [raw_foo, raw_bar]) = [''Foo'']"
    by (elim conjE)
  from 1 fo fd 2 show ?thesis
    by (intro conjI) (rule trans, assumption+)
qed



section \<open>The first selector that finds an element gives the field\<close>





text \<open>A field for which no selector finds an element stays empty.\<close>

lemma first_text_nothing_found:
  "\<forall>sel \<in> set sels. select_one sp sel = None \<Longrightarrow> first_text sp sels = []"
  by (induction sels) simp_all

lemma first_body_nothing_found:
  "\<forall>sel \<in> set sels. select_one sp sel = None \<Longrightarrow> first_body sp sels = ([], [])"
  by (induction sels) simp_all

text \<open>Without a title there is no article: no title selector finds an element.\<close>

lemma scrape_single_article_no_title:
  assumes "fetch e url s = (Some html, s')"
    and "\<forall>sel \<in> set title_selectors. select_one (parse e html) sel = None"
  shows "scrape_single_article e url s = (None, s')"
  using assms
  by (simp add: scrape_single_article_def Let_def first_text_nothing_found
      split: prod.splits)




section \<open>A cached url is served without the network\<close>

lemma fetch_hit:
  assumes "cache s (get_cache_path e url) = Some stored"
  shows "fetch e url s
           = (Some (universal_newlines stored), s\<lparr>out := out s @ [''  [cache] '' @ url]\<rparr>)"
  using assms by (simp add: fetch_def Let_def)

text \<open>
  When the cache holds a file for the url before the first call, a first and a second
  call of \<open>fetch\<close> return the same text, the file as \<open>read_text\<close> gives it; after the
  two calls no request has been issued, no sleep has been made, the clock has not moved,
  and \<open>last_request_time\<close> and the cache are what they were.
\<close>

lemma fetch_hit_twice:
  assumes "cache s (get_cache_path e url) = Some stored"
  shows "fst (fetch e url s) = Some (universal_newlines stored)
     \<and> fst (fetch e url (snd (fetch e url s))) = fst (fetch e url s)
     \<and> requests (snd (fetch e url (snd (fetch e url s)))) = requests s
     \<and> sleeps (snd (fetch e url (snd (fetch e url s)))) = sleeps s
     \<and> clock (snd (fetch e url (snd (fetch e url s)))) = clock s
     \<and> last_request_time (snd (fetch e url (snd (fetch e url s)))) = last_request_time s
     \<and> cache (snd (fetch e url (snd (fetch e url s)))) = cache s"
proof -
  let ?s1 = "s\<lparr>out := out s @ [''  [cache] '' @ url]\<rparr>"
  have 1: "fetch e url s = (Some (universal_newlines stored), ?s1)"
    using assms by (rule fetch_hit)
  have "cache ?s1 (get_cache_path e url) = Some stored"
    using assms by simp
  then have 2: "fetch e url ?s1
                  = (Some (universal_newlines stored),
                     ?s1\<lparr>out := out ?s1 @ [''  [cache] '' @ url]\<rparr>)"
    by (rule fetch_hit)
  show ?thesis by (simp only: 1 2 fst_conv snd_conv) simp
qed

text \<open>
  When the first call fills the cache from the network, it returns the body of the
  response, and the second call returns the file read back: the body with its newlines
  translated on the way out and on the way in. The second call issues no request and
  sleeps no time.
\<close>

lemma fetch_miss_then_hit:
  assumes miss: "cache s (get_cache_path e url) = None"
    and ok: "http_get e url = (took, Inr body)"
  shows "fst (fetch e url s) = Some body
     \<and> fst (fetch e url (snd (fetch e url s)))
         = Some (universal_newlines (write_newlines (linesep e) body))
     \<and> requests (snd (fetch e url (snd (fetch e url s)))) = requests (snd (fetch e url s))
     \<and> sleeps (snd (fetch e url (snd (fetch e url s)))) = sleeps (snd (fetch e url s))
     \<and> clock (snd (fetch e url (snd (fetch e url s)))) = clock (snd (fetch e url s))"
proof -
  obtain s1 where 1: "fetch e url s = (Some body, s1)"
    and c: "cache s1 (get_cache_path e url) = Some (write_newlines (linesep e) body)"
    using miss ok by (simp add: fetch_def Let_def)
  have 2: "fetch e url s1
             = (Some (universal_newlines (write_newlines (linesep e) body)),
                s1\<lparr>out := out s1 @ [''  [cache] '' @ url]\<rparr>)"
    using c by (rule fetch_hit)
  show ?thesis by (simp only: 1 2 fst_conv snd_conv) simp
qed

text \<open>
  The translation gives the body back when the body holds no carriage return, on
  POSIX and on Windows.
\<close>

lemma universal_newlines_Cons:
  "c \<noteq> CHR 0x0D \<Longrightarrow> universal_newlines (c # cs) = c # universal_newlines cs"
  by (cases cs) simp_all

lemma universal_newlines_write_newlines:
  assumes "CHR 0x0D \<notin> set body"
    and "sep = [CHR 0x0A] \<or> sep = [CHR 0x0D, CHR 0x0A]"
  shows "universal_newlines (write_newlines sep body) = body"
  using assms
  by (induction body) (auto simp: write_newlines_def universal_newlines_Cons)

text \<open>
  C2. A url is fetched twice, the first call filling the cache from a response whose
  lines end with a carriage return and a line feed: the second call issues no request
  and makes no sleep, but the text it returns is not the text the first call returned,
  the carriage returns are gone.
\<close>

theorem fetch_second_call_differs:
  "fst (fetch crlf_env url_b (initial 1000))
     = Some (''<p>a</p>'' @ [CHR 0x0D, CHR 0x0A] @ ''<p>b</p>'')
   \<and> fst (fetch crlf_env url_b (snd (fetch crlf_env url_b (initial 1000))))
     = Some (''<p>a</p>'' @ [CHR 0x0A] @ ''<p>b</p>'')
   \<and> requests (snd (fetch crlf_env url_b (snd (fetch crlf_env url_b (initial 1000)))))
     = [(1000, url_b)]
   \<and> sleeps (snd (fetch crlf_env url_b (snd (fetch crlf_env url_b (initial 1000))))) = []"
  by (simp add: fetch_def crlf_env_def crlf_page_def initial_def get_cache_path_def Let_def
      RATE_LIMIT_def url_b_def write_newlines_def)
section \<open>The rate limit after a failed request\<close>

text \<open>
  C6. Two consecutive cache-missing fetches, the first answered with an HTTP error:
  \<open>last_request_time\<close> is set only after a successful response, so the second request
  is issued a tenth of a second after the first, with no sleep, and the two fetches take
  0.2 seconds in all, less than \<open>(2 - 1) * RATE_LIMIT\<close>.
\<close>

theorem rate_limit_skipped_after_failure:
  "requests (fetch_all demo_env [url_a, url_b] (initial 1000))
     = [(1000, url_a), (1000 + 1 / 10, url_b)]
   \<and> sleeps (fetch_all demo_env [url_a, url_b] (initial 1000)) = []
   \<and> clock (fetch_all demo_env [url_a, url_b] (initial 1000)) - clock (initial 1000) = 2 / 10
   \<and> clock (fetch_all demo_env [url_a, url_b] (initial 1000)) - clock (initial 1000)
       < (2 - 1) * RATE_LIMIT"
  by (simp add: fetch_def demo_env_def initial_def get_cache_path_def Let_def RATE_LIMIT_def
      url_a_def url_b_def sleep_def)

section \<open>The card of the specification's scenario\<close>

text \<open>
  C8. For the record with the title of the scenario (\<open>acces_title\<close>), date
  \<open>12 mars 2025\<close> and body \<open>"Lorem ipsum " * 50\<close>, the card is the fragment below: its
  text field is the first 180 characters of the cleaned body (fifteen times
  \<open>Lorem ipsum \<close>, the last space included: the cleaned body has 599 characters and
  is cut at 180 whatever stands there), the title is the escaped title (which has no
  character to escape), and the \<open><time>\<close> element holds the date. The same record with
  an empty date gives a card with no \<open><time>\<close> element.
\<close>

theorem make_card_html_scenario:
  \<open>make_card_html scenario 0 =
     ''          <article class="card">\<newline>'' @
     ''            <div class="card__body">\<newline>'' @
     ''              <span class="card__overline">Article</span>\<newline>'' @
     ''              <h3 class="card__title">\<newline>'' @
     ''                <a href="article.html">'' @ acces_title @ ''</a>\<newline>'' @
     ''              </h3>\<newline>'' @
     ''              <p class="card__text">'' @ concat (replicate 15 ''Lorem ipsum '') @ ''</p>\<newline>'' @
     ''              <div class="card__meta">\<newline>'' @
     ''                <time>12 mars 2025</time>\<newline>'' @
     ''                \<newline>'' @
     ''              </div>\<newline>'' @
     ''            </div>\<newline>'' @
     ''          </article>''
   \<and> take 180 (clean lorem_body) = concat (replicate 15 ''Lorem ipsum '')
   \<and> length (take 180 (clean lorem_body)) = 180
   \<and> length (clean lorem_body) = 599
   \<and> escape (clean acces_title) = acces_title
   \<and> sublist ''<time>12 mars 2025</time>'' (make_card_html scenario 0)
   \<and> \<not> sublist ''<time>'' (make_card_html scenario_undated 0)\<close>
proof -
  have 1: \<open>make_card_html scenario 0 =
     ''          <article class="card">\<newline>'' @
     ''            <div class="card__body">\<newline>'' @
     ''              <span class="card__overline">Article</span>\<newline>'' @
     ''              <h3 class="card__title">\<newline>'' @
     ''                <a href="article.html">'' @ acces_title @ ''</a>\<newline>'' @
     ''              </h3>\<newline>'' @
     ''              <p class="card__text">'' @ concat (replicate 15 ''Lorem ipsum '') @ ''</p>\<newline>'' @
     ''              <div class="card__meta">\<newline>'' @
     ''                <time>12 mars 2025</time>\<newline>'' @
     ''                \<newline>'' @
     ''              </div>\<newline>'' @
     ''            </div>\<newline>'' @
     ''          </article>''\<close>
    by code_simp
  have 2: "take 180 (clean lorem_body) = concat (replicate 15 ''Lorem ipsum '')"
    by code_simp
  have 3: "length (take 180 (clean lorem_body)) = 180"
    by code_simp
  have 4: "length (clean lorem_body) = 599"
    by code_simp
  have 5: "escape (clean acces_title) = acces_title"
    by code_simp
  have 6: \<open>sublist ''<time>12 mars 2025</time>'' (make_card_html scenario 0)\<close>
    by code_simp
  have 7: \<open>\<not> sublist ''<time>'' (make_card_html scenario_undated 0)\<close>
    by code_simp
  from 1 2 3 4 5 6 7 show ?thesis by (intro conjI)
qed

section \<open>Escaping in the publication card\<close>

text \<open>\<open>html.escape\<close> leaves no angle bracket and no quote in a text.\<close>

lemma replace_char_set:
  "set (replace_char old new s) \<subseteq> (set s - {old}) \<union> set new"
  by (induction s) (auto simp: replace_char_def)

lemma escape_no_markup:
  \<open>CHR ''<'' \<notin> set (escape s) \<and> CHR ''>'' \<notin> set (escape s)
     \<and> CHR 0x22 \<notin> set (escape s) \<and> CHR 0x27 \<notin> set (escape s)\<close>
proof -
  let ?s1 = "replace_char CHR ''&'' ''&amp;'' s"
  let ?s2 = "replace_char CHR ''<'' ''&lt;'' ?s1"
  let ?s3 = "replace_char CHR ''>'' ''&gt;'' ?s2"
  let ?s4 = "replace_char (CHR 0x22) ''&quot;'' ?s3"
  let ?s5 = "replace_char (CHR 0x27) ''&#x27;'' ?s4"
  have 2: "CHR ''<'' \<notin> set ?s2"
    using replace_char_set [of "CHR ''<''" "''&lt;''" ?s1] by auto
  have 3: "CHR ''<'' \<notin> set ?s3" "CHR ''>'' \<notin> set ?s3"
    using replace_char_set [of "CHR ''>''" "''&gt;''" ?s2] 2 by auto
  have 4: "CHR ''<'' \<notin> set ?s4" "CHR ''>'' \<notin> set ?s4" "CHR 0x22 \<notin> set ?s4"
    using replace_char_set [of "CHR 0x22" "''&quot;''" ?s3] 3 by auto
  have 5: "CHR ''<'' \<notin> set ?s5" "CHR ''>'' \<notin> set ?s5" "CHR 0x22 \<notin> set ?s5"
    "CHR 0x27 \<notin> set ?s5"
    using replace_char_set [of "CHR 0x27" "''&#x27;''" ?s4] 4 by auto
  then show ?thesis by (simp add: escape_def)
qed

text \<open>
  The formation card pastes the \<open>format\<close> field into the class attribute as it is
  read: it is the one text field of a record that reaches a fragment without
  \<open>html.escape\<close>.
\<close>

lemma make_formation_card_html_raw_format:
  \<open>\<exists>p s. make_formation_card_html f =
           p @ ''formation-card__format--'' @ dget f ''format'' ''presentiel'' @ ''">'' @ s\<close>
  unfolding make_formation_card_html_def Let_def
  by (rule exI [of _ \<open>''          <div class="formation-card" data-filter-item>\<newline>'' @
         ''            <div class="formation-card__header">\<newline>'' @
         ''              <h3 class="formation-card__title">'' @
         escape (clean (dget f ''title'' '''')) @ ''</h3>\<newline>'' @
         ''              <span class="formation-card__format ''\<close>]) simp

text \<open>
  C7. The publication card cuts the title after escaping it (\<open>title[:30]\<close>, where the
  article card cuts the body before escaping it). For a title whose thirtieth
  character is an ampersand the cut falls inside the entity \<open>&amp;\<close>: the cover
  placeholder of the card ends with a bare \<open>&\<close>.
\<close>

theorem make_pub_card_html_cuts_entity:
  \<open>make_pub_card_html pub_amp =
     ''          <a href="publication-detail.html" class="pub-card" data-filter-item data-type="publication">\<newline>'' @
     ''            <div class="pub-card__cover-placeholder">AAAAAAAAAAAAAAAAAAAAAAAAAAAAA&</div>\<newline>'' @
     ''            <div class="pub-card__body">\<newline>'' @
     ''              <span class="pub-card__type">Publication</span>\<newline>'' @
     ''              <h3 class="pub-card__title">AAAAAAAAAAAAAAAAAAAAAAAAAAAAA&amp;B</h3>\<newline>'' @
     ''            </div>\<newline>'' @
     ''          </a>''\<close>
  by code_simp


section \<open>A missing target document\<close>

text \<open>
  \<open>inject_formations\<close>, \<open>inject_publications\<close> and \<open>inject_dossiers\<close> test
  \<open>html_path.exists()\<close> and return after printing a line. \<open>inject_homepage\<close> and
  \<open>inject_article\<close> call \<open>read_text\<close> at once, so a missing document raises
  \<open>FileNotFoundError\<close> there.
\<close>

lemma inject_formations_skips:
  assumes "files w ''formations.html'' = None"
  shows "inject_formations w =
           Inr (say ''  -> formations.html not found, skipping''
                  (say ''Injecting into formations.html...'' w))"
  using assms by (simp add: inject_formations_def say_def read_text_def)

lemma inject_publications_skips:
  assumes "files w ''publications.html'' = None"
  shows "inject_publications w =
           Inr (say ''  -> publications.html not found, skipping''
                  (say ''Injecting into publications.html...'' w))"
  using assms by (simp add: inject_publications_def say_def read_text_def)

lemma inject_dossiers_skips:
  assumes "files w ''dossiers.html'' = None"
  shows "inject_dossiers w =
           Inr (say ''  -> dossiers.html not found, skipping''
                  (say ''Injecting into dossiers.html...'' w))"
  using assms by (simp add: inject_dossiers_def say_def read_text_def)

lemma inject_article_raises:
  assumes "files w ''article.html'' = None"
  shows "inject_article w = Inl (FileNotFoundError ''article.html'')"
  using assms by (simp add: inject_article_def say_def read_text_def)

lemma inject_homepage_raises:
  assumes "files w ''index.html'' = None"
  shows "inject_homepage w = Inl (FileNotFoundError ''index.html'')"
  using assms by (simp add: inject_homepage_def say_def read_text_def)

text \<open>
  C9. An injection step whose target document does not exist is meant to skip the
  document without raising, and the run to go on. On a site that has \<open>index.html\<close> and no
  \<open>article.html\<close>, \<open>inject_article\<close> raises \<open>FileNotFoundError\<close> and \<open>main\<close>
  ends with that exception, before the steps for the formations, the publications and
  the dossiers. On the same site \<open>inject_formations\<close>, whose document is missing too,
  prints that it skips and returns.
\<close>

theorem main_raises_without_article:
  "raised (inject_article site_without_article) = Some (FileNotFoundError ''article.html'')
   \<and> raised (main site_without_article) = Some (FileNotFoundError ''article.html'')
   \<and> raised (inject_formations site_without_article) = None
   \<and> printed_after (inject_formations site_without_article) =
        [''Injecting into formations.html...'', ''  -> formations.html not found, skipping'']"
proof -
  have 1: "raised (inject_article site_without_article)
             = Some (FileNotFoundError ''article.html'')"
    by code_simp
  have 2: "raised (main site_without_article) = Some (FileNotFoundError ''article.html'')"
    by code_simp
  have 3: "raised (inject_formations site_without_article) = None"
    by code_simp
  have 4: "printed_after (inject_formations site_without_article) =
             [''Injecting into formations.html...'',
              ''  -> formations.html not found, skipping'']"
    by code_simp
  from 1 2 3 4 show ?thesis by blast
qed

section \<open>A document without the anchor\<close>

text \<open>
  When the pattern matches nowhere, \<open>re.sub\<close> returns the document it was given,
  whatever the template (as long as the template is well formed: the template is parsed
  before the document is searched).
\<close>

lemma re_sub_no_match:
  assumes "re_search pattern False string = None"
    and "parse_template (ngroups pattern) repl = Inr t"
  shows "re_sub pattern repl string = Inr string"
  using assms by (simp add: re_sub_def)

text \<open>
  C4. When the anchor pattern does not match, the injection for that anchor is meant to
  be a no-op of which the caller is informed: the document is written back unchanged,
  the non-match is reported, and the run goes on. On a site whose \<open>index.html\<close> and
  \<open>formations.html\<close> hold neither anchor, \<open>inject_formations\<close> leaves its document
  alone and prints that the pattern did not match; \<open>inject_homepage\<close> writes the
  document back unchanged too, but prints that it updated it with one article and one
  formation, and nothing tells the non-match.
\<close>

theorem inject_homepage_reports_update_without_anchor:
  "re_search pattern_featured False plain_page = None
   \<and> re_search pattern_formations_mini False plain_page = None
   \<and> document_after (inject_homepage site_without_anchors) ''index.html'' = Some plain_page
   \<and> printed_after (inject_homepage site_without_anchors) =
        [''Injecting into index.html...'', ''  -> Updated with 1 articles, 1 formations'']
   \<and> document_after (inject_formations site_without_anchors) ''formations.html''
        = Some plain_page
   \<and> printed_after (inject_formations site_without_anchors) =
        [''Injecting into formations.html...'', ''  -> Pattern not matched, no changes'']"
proof -
  have 1: "re_search pattern_featured False plain_page = None"
    by code_simp
  have 2: "re_search pattern_formations_mini False plain_page = None"
    by code_simp
  have 3: "document_after (inject_homepage site_without_anchors) ''index.html''
             = Some plain_page"
    by code_simp
  have 4: "printed_after (inject_homepage site_without_anchors) =
             [''Injecting into index.html...'',
              ''  -> Updated with 1 articles, 1 formations'']"
    by code_simp
  have 5: "document_after (inject_formations site_without_anchors) ''formations.html''
             = Some plain_page"
    by code_simp
  have 6: "printed_after (inject_formations site_without_anchors) =
             [''Injecting into formations.html...'',
              ''  -> Pattern not matched, no changes'']"
    by code_simp
  from 1 2 3 4 5 6 show ?thesis by blast
qed

section \<open>Injecting twice\<close>

text \<open>
  The block of cards is pasted into the replacement template of \<open>re.sub\<close>, where a
  backslash starts an escape. The texts of the cards go through \<open>html.escape\<close>, which
  leaves a backslash as it is, so a backslash of a title reaches the template: followed
  by a digit it stands for a group of the match.
\<close>

text \<open>
  C3. Injecting twice with the same block is meant to give the document that injecting
  once gives, with the markers left as they were. With one article whose title is
  \<open>Dossier \2 annexes\<close>, the first run of \<open>inject_homepage\<close> puts the old interior of
  the anchor in place of \<open>\2\<close> in the card, and the second run puts there the card of
  the first run: neither run raises, and the two documents differ. With an article
  whose title has no backslash, the second run gives the document of the first.
\<close>

theorem inject_homepage_twice_differs:
  \<open>raised (inject_homepage site_with_backslash) = None
   \<and> raised (twice inject_homepage site_with_backslash) = None
   \<and> document_after (twice inject_homepage site_with_backslash) ''index.html''
       \<noteq> document_after (inject_homepage site_with_backslash) ''index.html''
   \<and> (case document_after (inject_homepage site_with_backslash) ''index.html'' of
         None \<Rightarrow> False
       | Some d \<Rightarrow> sublist ''<a href="article.html">Dossier <p>old</p>'' d)
   \<and> document_after (twice inject_homepage site_with_article) ''index.html''
       = document_after (inject_homepage site_with_article) ''index.html''\<close>
proof -
  have 1: "raised (inject_homepage site_with_backslash) = None"
    by code_simp
  have 2: "raised (twice inject_homepage site_with_backslash) = None"
    by code_simp
  have 3: "document_after (twice inject_homepage site_with_backslash) ''index.html''
             \<noteq> document_after (inject_homepage site_with_backslash) ''index.html''"
    by code_simp
  have 4: \<open>case document_after (inject_homepage site_with_backslash) ''index.html'' of
             None \<Rightarrow> False
           | Some d \<Rightarrow> sublist ''<a href="article.html">Dossier <p>old</p>'' d\<close>
    by code_simp
  have 5: "document_after (twice inject_homepage site_with_article) ''index.html''
             = document_after (inject_homepage site_with_article) ''index.html''"
    by code_simp
  from 1 2 3 4 5 show ?thesis by blast
qed
end
